theory Spec2Isabelle
  imports Complex_Main
begin

section \<open>Data layer (data.py)\<close>

text \<open>
  Python floats are modelled as exact rationals: every finite float is a rational, and the
  properties below do not depend on rounding of the arithmetic. A missing cell (JSON null,
  pandas NaN) is \<open>None\<close>.
\<close>

type_synonym symbol = string
type_synonym coin_id = string

text \<open>A provider series \<open>[[timestampMs, price], ...]\<close>.\<close>

type_synonym price_series = "(int \<times> rat option) list"

text \<open>The static table \<open>symbol_to_id\<close>, in the order of the source.\<close>

definition symbol_to_id :: "(symbol \<times> coin_id) list" where
  "symbol_to_id =
    [(''BTC'', ''bitcoin''), (''ETH'', ''ethereum''), (''USDT'', ''tether''),
     (''BNB'', ''binancecoin''), (''SOL'', ''solana''), (''XRP'', ''ripple''),
     (''ADA'', ''cardano''), (''DOGE'', ''dogecoin''), (''AVAX'', ''avalanche-2''),
     (''DOT'', ''polkadot''), (''MATIC'', ''matic-network''), (''LTC'', ''litecoin''),
     (''TRX'', ''tron''), (''BCH'', ''bitcoin-cash''), (''LINK'', ''chainlink''),
     (''XLM'', ''stellar''), (''ATOM'', ''cosmos''), (''FIL'', ''filecoin''),
     (''UNI'', ''uniswap''), (''ICP'', ''internet-computer''), (''ETC'', ''ethereum-classic'')]"

text \<open>\<open>s in symbol_to_id\<close>\<close>

definition known_symbol :: "symbol \<Rightarrow> bool" where
  "known_symbol s = (map_of symbol_to_id s \<noteq> None)"

subsection \<open>Cache store\<close>

text \<open>
  One file per \<open>(coin_id, days)\<close>, named \<open>{coin_id}_{days}days.json\<close>. The decimal rendering
  of \<open>days\<close> has no underscore, so the name determines the pair; the store is keyed by it.
  A file holds \<open>{'timestamp': time.time(), 'data': data}\<close>.
\<close>

record 'd cache_entry =
  timestamp :: rat
  data :: 'd

type_synonym cache_path = "coin_id \<times> int"

type_synonym 'd cache_dir = "cache_path \<rightharpoonup> 'd cache_entry"

definition get_cache_path :: "coin_id \<Rightarrow> int \<Rightarrow> cache_path" where
  "get_cache_path cid days = (cid, days)"

text \<open>\<open>save_to_cache(coin_id, days, data)\<close>, called when \<open>time.time()\<close> is \<open>now\<close>.\<close>

definition save_to_cache :: "'d cache_dir \<Rightarrow> rat \<Rightarrow> coin_id \<Rightarrow> int \<Rightarrow> 'd \<Rightarrow> 'd cache_dir" where
  "save_to_cache dir now cid days d =
     dir(get_cache_path cid days \<mapsto> \<lparr>timestamp = now, data = d\<rparr>)"

text \<open>
  \<open>load_from_cache(coin_id, days, max_age_hours=24)\<close>, called when \<open>time.time()\<close> is \<open>now\<close>:
  no file gives \<open>None\<close>; an entry older than \<open>max_age_hours * 3600\<close> seconds gives \<open>None\<close>;
  the comparison is the source's strict \<open>cache_age > max_age_hours * 3600\<close>.
\<close>

definition load_from_cache_aged :: "'d cache_dir \<Rightarrow> rat \<Rightarrow> coin_id \<Rightarrow> int \<Rightarrow> rat \<Rightarrow> 'd option" where
  "load_from_cache_aged dir now cid days max_age_hours =
     (case dir (get_cache_path cid days) of
        None \<Rightarrow> None
      | Some cache_data \<Rightarrow>
          (let cache_age = now - timestamp cache_data
           in if cache_age > max_age_hours * 3600 then None else Some (data cache_data)))"

definition load_from_cache :: "'d cache_dir \<Rightarrow> rat \<Rightarrow> coin_id \<Rightarrow> int \<Rightarrow> 'd option" where
  "load_from_cache dir now cid days = load_from_cache_aged dir now cid days 24"

subsection \<open>Provider access\<close>

text \<open>
  The two entries of \<open>DATA_SOURCES\<close>. A request is one \<open>requests.get\<close> of a source's
  history URL for a coin and a window.
\<close>

datatype source_key = Coingecko | Coinapi

type_synonym request = "source_key \<times> coin_id \<times> int"

text \<open>
  What \<open>response.json()\<close> holds, as far as the code looks at it:
  \<open>Body_Empty\<close> is a falsy payload (\<open>{}\<close>, \<open>[]\<close>, \<open>null\<close>);
  \<open>Body_Prices ps\<close> is a payload from which the source's \<open>extract_history\<close> yields \<open>ps\<close>;
  \<open>Body_Other\<close> is any other truthy payload (for CoinGecko a dictionary without the key
  \<open>'prices'\<close>, for CoinAPI a payload on which the extraction raises).
\<close>

datatype json_body = Body_Empty | Body_Prices price_series | Body_Other

text \<open>
  One attempt: status 429, a payload, or a \<open>RequestException\<close> (connection fault, timeout,
  error status through \<open>raise_for_status\<close>).
\<close>

datatype http_result = Http_OK json_body | Http_429 | Http_Error

text \<open>
  The outside world is an oracle: the answer to the \<open>n\<close>-th request made so far and the
  seconds it took. Answers may change from one request to the next.
\<close>

type_synonym net = "nat \<Rightarrow> request \<Rightarrow> http_result \<times> rat"

datatype event =
    Cache_Read coin_id int
  | Cache_Write coin_id int
  | Http_Get request
  | Sleep rat

text \<open>
  The state the data layer reads and writes: the clock (\<open>time.time()\<close>), the cache directory
  and the trace of effects so far (most recent last).
\<close>

record world =
  clock :: rat
  cache_files :: "price_series cache_dir"
  trace :: "event list"

definition is_http_get :: "event \<Rightarrow> bool" where
  "is_http_get e = (case e of Http_Get _ \<Rightarrow> True | _ \<Rightarrow> False)"

definition requests_made :: "world \<Rightarrow> nat" where
  "requests_made w = length (filter is_http_get (trace w))"

definition http_get :: "net \<Rightarrow> request \<Rightarrow> world \<Rightarrow> http_result \<times> world" where
  "http_get nt req w =
     (let (res, dt) = nt (requests_made w) req
      in (res, w\<lparr>clock := clock w + dt, trace := trace w @ [Http_Get req]\<rparr>))"

definition sleep :: "rat \<Rightarrow> world \<Rightarrow> world" where
  "sleep secs w = w\<lparr>clock := clock w + secs, trace := trace w @ [Sleep secs]\<rparr>"

text \<open>
  \<open>api_call_with_retry(url, max_retries=3, backoff_factor=0.5)\<close>: the body of
  \<open>for attempt in range(max_retries)\<close>, over the attempts still to run. A 429 sleeps and
  continues; a payload returns; a fault returns \<open>None\<close> on the last attempt and sleeps
  otherwise. When the loop runs out the function returns \<open>None\<close>.
\<close>

fun api_call_loop ::
  "net \<Rightarrow> request \<Rightarrow> nat \<Rightarrow> rat \<Rightarrow> nat list \<Rightarrow> world \<Rightarrow> json_body option \<times> world" where
  "api_call_loop nt req max_retries backoff_factor [] w = (None, w)"
| "api_call_loop nt req max_retries backoff_factor (attempt # rest) w =
     (case http_get nt req w of
        (Http_429, w1) \<Rightarrow>
          api_call_loop nt req max_retries backoff_factor rest
            (sleep (backoff_factor * 2 ^ attempt) w1)
      | (Http_OK body, w1) \<Rightarrow> (Some body, w1)
      | (Http_Error, w1) \<Rightarrow>
          if attempt = max_retries - 1 then (None, w1)
          else api_call_loop nt req max_retries backoff_factor rest
                 (sleep (backoff_factor * 2 ^ attempt) w1))"

definition api_call_with_retry :: "net \<Rightarrow> request \<Rightarrow> world \<Rightarrow> json_body option \<times> world" where
  "api_call_with_retry nt req w = api_call_loop nt req 3 (1 / 2) [0 ..< 3] w"

text \<open>
  \<open>_get_historical_data(source_key, coin_id, days)\<close>: \<open>{'prices': extract_history(data)}\<close>
  when the call gave a truthy payload, else \<open>None\<close>. CoinGecko's extraction is
  \<open>data.get('prices', [])\<close>; CoinAPI's is a comprehension whose exceptions the function
  catches. The returned dictionary is modelled by its one entry.
\<close>

definition get_historical_data ::
  "net \<Rightarrow> source_key \<Rightarrow> coin_id \<Rightarrow> int \<Rightarrow> world \<Rightarrow> price_series option \<times> world" where
  "get_historical_data nt src cid days w =
     (case api_call_with_retry nt (src, cid, days) w of
        (None, w1) \<Rightarrow> (None, w1)
      | (Some Body_Empty, w1) \<Rightarrow> (None, w1)
      | (Some (Body_Prices ps), w1) \<Rightarrow> (Some ps, w1)
      | (Some Body_Other, w1) \<Rightarrow>
          (case src of Coingecko \<Rightarrow> (Some [], w1) | Coinapi \<Rightarrow> (None, w1)))"

text \<open>The two cache operations on the world, each leaving its event in the trace.\<close>

definition cache_read :: "coin_id \<Rightarrow> int \<Rightarrow> world \<Rightarrow> price_series option \<times> world" where
  "cache_read cid days w =
     (load_from_cache (cache_files w) (clock w) cid days,
      w\<lparr>trace := trace w @ [Cache_Read cid days]\<rparr>)"

definition cache_write :: "coin_id \<Rightarrow> int \<Rightarrow> price_series \<Rightarrow> world \<Rightarrow> world" where
  "cache_write cid days d w =
     w\<lparr>cache_files := save_to_cache (cache_files w) (clock w) cid days d,
       trace := trace w @ [Cache_Write cid days]\<rparr>"

subsection \<open>Price matrix\<close>

text \<open>
  A pandas \<open>DataFrame\<close> of prices: the row index (calendar days, as day numbers) and the
  columns in order, each a symbol with one cell per row.
\<close>

record price_matrix =
  index :: "int list"
  columns :: "(symbol \<times> rat option list) list"

definition empty_frame :: price_matrix where
  "empty_frame = \<lparr>index = [], columns = []\<rparr>"

definition column_names :: "price_matrix \<Rightarrow> symbol list" where
  "column_names m = map fst (columns m)"

text \<open>\<open>len(df)\<close>\<close>

definition nrows :: "price_matrix \<Rightarrow> nat" where
  "nrows m = length (index m)"

text \<open>\<open>ffill\<close> carries the last present cell forward; \<open>bfill\<close> does the same backwards.\<close>

fun ffill_from :: "'a option \<Rightarrow> 'a option list \<Rightarrow> 'a option list" where
  "ffill_from prev [] = []"
| "ffill_from prev (None # xs) = prev # ffill_from prev xs"
| "ffill_from prev (Some v # xs) = Some v # ffill_from (Some v) xs"

definition ffill_col :: "'a option list \<Rightarrow> 'a option list" where
  "ffill_col xs = ffill_from None xs"

definition bfill_col :: "'a option list \<Rightarrow> 'a option list" where
  "bfill_col xs = rev (ffill_from None (rev xs))"

definition map_columns :: "(rat option list \<Rightarrow> rat option list) \<Rightarrow> price_matrix \<Rightarrow> price_matrix" where
  "map_columns f m = m\<lparr>columns := map (\<lambda>(s, c). (s, f c)) (columns m)\<rparr>"

definition ffill :: "price_matrix \<Rightarrow> price_matrix" where
  "ffill m = map_columns ffill_col m"

definition bfill :: "price_matrix \<Rightarrow> price_matrix" where
  "bfill m = map_columns bfill_col m"

subsection \<open>History store\<close>

text \<open>
  What the code takes from the platform and from pandas without computing it itself:
  whether \<open>datetime.fromtimestamp\<close> raises on a timestamp (it does outside the platform's
  range), the local calendar day of a timestamp, and whether \<open>pd.concat(..., axis=1)\<close>
  raises on the collected frames (it does when it has to reindex a frame whose index holds
  a timestamp twice).
\<close>

record platform =
  fromtimestamp_raises :: "int \<Rightarrow> bool"
  day_of :: "int \<Rightarrow> int"
  concat_raises :: "(symbol \<times> price_series) list \<Rightarrow> bool"

datatype py_error = KeyError | ValueError | InvalidIndexError | Library_Error string

type_synonym frame = "symbol \<times> price_series"

text \<open>
  \<open>timestamps = [datetime.fromtimestamp(ts/1000) for ts, _ in prices_data]\<close> raises when one
  conversion does.
\<close>

definition frame_raises :: "platform \<Rightarrow> price_series \<Rightarrow> bool" where
  "frame_raises plat ps = list_ex (\<lambda>(ts, _). fromtimestamp_raises plat ts) ps"

text \<open>
  The body of \<open>for symbol in valid_symbols\<close>. A cache hit whose frame builds is appended and
  the loop continues; a hit whose frame raises is logged and falls through to the fetch.
  The fetch tries CoinGecko, then CoinAPI when that gave nothing and
  \<open>use_multiple_sources\<close> holds. Fetched data is turned into a frame outside any
  \<open>try\<close>, appended and saved; with no data the symbol goes to \<open>missing_symbols\<close>.
  A stored entry is the dictionary \<open>{'prices': ...}\<close>, which is truthy whatever the series.
\<close>

definition fetch_symbol ::
  "platform \<Rightarrow> net \<Rightarrow> int \<Rightarrow> bool \<Rightarrow> symbol \<Rightarrow> frame list \<times> symbol list \<times> world
     \<Rightarrow> py_error + (frame list \<times> symbol list \<times> world)" where
  "fetch_symbol plat nt days use_multiple_sources symb acc =
     (case acc of (all_prices, missing_symbols, w) \<Rightarrow>
      (case map_of symbol_to_id symb of
         None \<Rightarrow> Inl KeyError
       | Some cid \<Rightarrow>
          (case cache_read cid days w of (cached_data, w1) \<Rightarrow>
            (if (case cached_data of None \<Rightarrow> False | Some ps \<Rightarrow> \<not> frame_raises plat ps)
             then Inr (all_prices @ [(symb, the cached_data)], missing_symbols, w1)
             else
              (case get_historical_data nt Coingecko cid days w1 of (data1, w2) \<Rightarrow>
               (case (if data1 = None \<and> use_multiple_sources
                      then get_historical_data nt Coinapi cid days w2
                      else (data1, w2)) of (data2, w3) \<Rightarrow>
                 (case data2 of
                    Some ps \<Rightarrow>
                      if frame_raises plat ps then Inl ValueError
                      else Inr (all_prices @ [(symb, ps)], missing_symbols,
                                cache_write cid days ps w3)
                  | None \<Rightarrow> Inr (all_prices, missing_symbols @ [symb], w3))))))))"

fun fetch_all ::
  "platform \<Rightarrow> net \<Rightarrow> int \<Rightarrow> bool \<Rightarrow> symbol list \<Rightarrow> frame list \<times> symbol list \<times> world
     \<Rightarrow> py_error + (frame list \<times> symbol list \<times> world)" where
  "fetch_all plat nt days ums [] acc = Inr acc"
| "fetch_all plat nt days ums (symb # rest) acc =
     (case fetch_symbol plat nt days ums symb acc of
        Inl e \<Rightarrow> Inl e
      | Inr acc' \<Rightarrow> fetch_all plat nt days ums rest acc')"

text \<open>
  \<open>pd.concat(all_prices, axis=1)\<close>, \<open>sort_index\<close>, \<open>resample('D').last()\<close>, then forward and
  backward fill. The daily index runs over every day from the first to the last observed
  timestamp; a column's cell for a day is its last present observation of that day.
\<close>

definition observed_days :: "platform \<Rightarrow> frame list \<Rightarrow> int list" where
  "observed_days plat frames = concat (map (\<lambda>(s, ps). map (\<lambda>(ts, _). day_of plat ts) ps) frames)"

definition daily_index :: "int list \<Rightarrow> int list" where
  "daily_index ds = (case ds of [] \<Rightarrow> [] | d # rest \<Rightarrow> [fold min rest d .. fold max rest d])"

definition last_of_day :: "platform \<Rightarrow> price_series \<Rightarrow> int \<Rightarrow> rat option" where
  "last_of_day plat ps d =
     (case filter (\<lambda>(ts, v). day_of plat ts = d \<and> v \<noteq> None) (sort_key fst ps) of
        [] \<Rightarrow> None
      | obs \<Rightarrow> snd (last obs))"

definition combine_frames :: "platform \<Rightarrow> frame list \<Rightarrow> price_matrix" where
  "combine_frames plat frames =
     (let idx = daily_index (observed_days plat frames)
      in bfill (ffill
           \<lparr>index = idx, columns = map (\<lambda>(s, ps). (s, map (last_of_day plat ps) idx)) frames\<rparr>))"

text \<open>
  \<open>get_historical_prices(symbols, days=60, use_multiple_sources=True)\<close>. The result is the
  pair \<open>(matrix, missing_symbols)\<close> and the world after the call, or the exception that left
  the function.
\<close>

definition get_historical_prices_from ::
  "platform \<Rightarrow> net \<Rightarrow> symbol list \<Rightarrow> int \<Rightarrow> bool \<Rightarrow> world
     \<Rightarrow> py_error + ((price_matrix \<times> symbol list) \<times> world)" where
  "get_historical_prices_from plat nt symbols days use_multiple_sources w =
     (let valid_symbols = filter known_symbol symbols
      in if valid_symbols = [] then Inr ((empty_frame, []), w)
         else
          (case fetch_all plat nt days use_multiple_sources valid_symbols ([], [], w) of
             Inl e \<Rightarrow> Inl e
           | Inr (all_prices, missing_symbols, w') \<Rightarrow>
               if all_prices = [] then Inr ((empty_frame, valid_symbols), w')
               else if concat_raises plat all_prices then Inl InvalidIndexError
               else Inr ((combine_frames plat all_prices, missing_symbols), w')))"

definition get_historical_prices ::
  "platform \<Rightarrow> net \<Rightarrow> symbol list \<Rightarrow> int \<Rightarrow> world
     \<Rightarrow> py_error + ((price_matrix \<times> symbol list) \<times> world)" where
  "get_historical_prices plat nt symbols days w =
     get_historical_prices_from plat nt symbols days True w"

subsection \<open>Example environments\<close>

text \<open>
  A platform on which no conversion raises and days are UTC days; an empty cache at time 0;
  a provider that always answers with a two-day series; a provider whose first six requests
  fail and which answers from then on.
\<close>

definition example_platform :: platform where
  "example_platform =
     \<lparr>fromtimestamp_raises = (\<lambda>ts. False),
      day_of = (\<lambda>ts. ts div 86400000),
      concat_raises = (\<lambda>frames. False)\<rparr>"

definition fresh_world :: world where
  "fresh_world = \<lparr>clock = 0, cache_files = Map.empty, trace = []\<rparr>"

definition net_up :: net where
  "net_up n req = (Http_OK (Body_Prices [(0, Some 100), (86400000, Some 110)]), 1)"


section \<open>Optimization engine (optimizer.py)\<close>

subsection \<open>Data validator\<close>

text \<open>
  A cell of a returns frame: a finite number, an infinity (a price after a zero price) or
  NaN.
\<close>

datatype fl = Finite rat | Pos_Inf | Neg_Inf | NaN

text \<open>\<open>abs(x) > t\<close> and \<open>abs(x) < t\<close> on such a cell; every comparison with NaN is false.\<close>

definition abs_gt :: "fl \<Rightarrow> rat \<Rightarrow> bool" where
  "abs_gt x t = (case x of Finite q \<Rightarrow> \<bar>q\<bar> > t | Pos_Inf \<Rightarrow> True | Neg_Inf \<Rightarrow> True | NaN \<Rightarrow> False)"

definition abs_lt :: "fl \<Rightarrow> rat \<Rightarrow> bool" where
  "abs_lt x t = (case x of Finite q \<Rightarrow> \<bar>q\<bar> < t | _ \<Rightarrow> False)"

text \<open>One cell of \<open>pct_change\<close>: \<open>cur / prev - 1\<close> in floating point.\<close>

definition pct :: "rat option \<Rightarrow> rat option \<Rightarrow> fl" where
  "pct prev cur =
     (case (prev, cur) of
        (Some a, Some b) \<Rightarrow>
          if a \<noteq> 0 then Finite (b / a - 1)
          else if b = 0 then NaN
          else if b > 0 then Pos_Inf else Neg_Inf
      | _ \<Rightarrow> NaN)"

definition pct_change_col :: "rat option list \<Rightarrow> fl list" where
  "pct_change_col c = (case c of [] \<Rightarrow> [] | x # xs \<Rightarrow> NaN # map (\<lambda>(a, b). pct a b) (zip c xs))"

text \<open>The rows of a frame of \<open>n\<close> rows given by its columns; a cell out of range is NaN.\<close>

definition rows_of :: "nat \<Rightarrow> fl list list \<Rightarrow> fl list list" where
  "rows_of n cols = map (\<lambda>i. map (\<lambda>c. if i < length c then c ! i else NaN) cols) [0 ..< n]"

text \<open>\<open>cleaned_data.pct_change().dropna()\<close>: the rows without any NaN.\<close>

definition daily_returns_of :: "price_matrix \<Rightarrow> fl list list" where
  "daily_returns_of m =
     filter (\<lambda>r. \<not> list_ex (\<lambda>x. x = NaN) r)
       (rows_of (nrows m) (map (\<lambda>(s, c). pct_change_col c) (columns m)))"

text \<open>
  \<open>hist_prices.isna().mean().mean() * 100\<close>: the mean over the columns of each column's
  share of missing cells. The mean of nothing is NaN (\<open>None\<close>) and is skipped by the outer
  mean.
\<close>

definition isna_mean :: "rat option list \<Rightarrow> rat option" where
  "isna_mean c =
     (if c = [] then None
      else Some (of_nat (length (filter (\<lambda>x. x = None) c)) / of_nat (length c)))"

definition mean_skipna :: "rat option list \<Rightarrow> rat option" where
  "mean_skipna xs =
     (let present = concat (map (\<lambda>x. case x of None \<Rightarrow> [] | Some v \<Rightarrow> [v]) xs)
      in if present = [] then None else Some (sum_list present / of_nat (length present)))"

definition missing_pct_of :: "price_matrix \<Rightarrow> rat option" where
  "missing_pct_of m =
     map_option (\<lambda>x. x * 100) (mean_skipna (map (\<lambda>(s, c). isna_mean c) (columns m)))"

text \<open>\<open>x > t\<close> for a float that may be NaN.\<close>

definition nan_gt :: "rat option \<Rightarrow> rat \<Rightarrow> bool" where
  "nan_gt x t = (case x of None \<Rightarrow> False | Some v \<Rightarrow> v > t)"

text \<open>The issue messages, by the values their f-strings print.\<close>

datatype issue =
    Insufficient_Points nat rat
  | High_Missing rat
  | Extreme_Moves nat
  | Stale_Prices nat
  | Statistical_Outliers nat

text \<open>
  \<open>scipy.stats.zscore(daily_returns, nan_policy='omit')\<close> is taken from the library: the
  frame of z-scores, or the text of the exception it raises.
\<close>

type_synonym zscore_fn = "fl list list \<Rightarrow> string + fl list list"

text \<open>
  \<open>validate_price_data(hist_prices, lookback_days)\<close> of optimizer.py, statement by
  statement. The result is \<open>(is_valid, issues, cleaned_data)\<close>, or the exception that left
  the function.
\<close>

definition min_required_of :: "int \<Rightarrow> rat" where
  "min_required_of lookback_days = min (of_int lookback_days * (8 / 10)) 20"

definition validate_price_data ::
  "zscore_fn \<Rightarrow> price_matrix \<Rightarrow> int \<Rightarrow> string + (bool \<times> issue list \<times> price_matrix)" where
  "validate_price_data zscore hist_prices lookback_days =
     (let issues0 = [];
          is_valid0 = True;
          cleaned_data0 = hist_prices;
          min_required = min_required_of lookback_days
      in if of_nat (nrows hist_prices) < min_required
         then Inr (False,
                   issues0 @ [Insufficient_Points (nrows hist_prices) min_required],
                   cleaned_data0)
         else
          (let missing_pct = missing_pct_of hist_prices;
               issues1 = (if nan_gt missing_pct 5
                          then issues0 @ [High_Missing (the missing_pct)] else issues0);
               is_valid1 = (if nan_gt missing_pct 5
                            then (if nan_gt missing_pct 20 then False else is_valid0)
                            else is_valid0);
               cleaned_data = bfill (ffill hist_prices);
               daily_returns = daily_returns_of cleaned_data;
               extreme_days = length (filter (\<lambda>r. list_ex (\<lambda>x. abs_gt x (3 / 10)) r) daily_returns);
               issues2 = (if extreme_days > 0
                          then issues1 @ [Extreme_Moves extreme_days] else issues1);
               stale_days = length (filter (\<lambda>r. list_all (\<lambda>x. abs_lt x (1 / 10000)) r) daily_returns);
               stale = (of_nat stale_days > of_int lookback_days * (1 / 10 :: rat));
               issues3 = (if stale then issues2 @ [Stale_Prices stale_days] else issues2);
               is_valid3 = (if stale
                            then (if of_nat stale_days > of_int lookback_days * (3 / 10 :: rat)
                                  then False else is_valid1)
                            else is_valid1)
           in case zscore daily_returns of
                Inl msg \<Rightarrow> Inl msg
              | Inr z_scores \<Rightarrow>
                  (let outliers = length (filter (\<lambda>r. list_ex (\<lambda>x. abs_gt x 3) r) z_scores);
                       issues4 = (if of_nat outliers > of_int lookback_days * (1 / 10 :: rat)
                                  then issues3 @ [Statistical_Outliers outliers] else issues3)
                   in Inr (is_valid3, issues4, cleaned_data))))"

subsection \<open>The portfolio library\<close>

text \<open>
  PyPortfolioOpt, pandas and numpy are outside the repository. What the code asks of them
  is taken as a record of functions; a call that raises gives \<open>Inl\<close> with the text of the
  exception. An \<open>EfficientFrontier\<close> object is modelled by what the code configures on it.
\<close>

datatype constraint_fn = W_le rat | W_ge rat

datatype objective = Max_Sharpe | Min_Volatility | Efficient_Risk rat

record efficient_frontier =
  ef_mu :: "(symbol \<times> rat) list"
  ef_cov :: "rat list list"
  ef_weight_bounds :: "rat \<times> rat"
  ef_constraints :: "constraint_fn list"
  ef_l2_gamma :: "rat list"

type_synonym weights = "(symbol \<times> rat) list"

datatype json =
    J_Null
  | J_Num rat
  | J_Str string
  | J_List "json list"
  | J_Dict "(string \<times> json) list"

record libs =
  zscore :: zscore_fn
  return_estimates :: "price_matrix \<Rightarrow> int \<Rightarrow> string + (symbol \<times> rat \<times> rat \<times> rat \<times> rat) list"
  ledoit_wolf :: "price_matrix \<Rightarrow> string + rat list list"
  ef_init :: "(symbol \<times> rat) list \<Rightarrow> rat list list \<Rightarrow> string + unit"
  solve :: "objective \<Rightarrow> efficient_frontier \<Rightarrow> string + weights"
  portfolio_performance :: "efficient_frontier \<Rightarrow> weights \<Rightarrow> rat option \<Rightarrow> string + (rat \<times> rat \<times> rat)"
  greedy_portfolio :: "weights \<Rightarrow> (symbol \<times> rat) list \<Rightarrow> rat \<Rightarrow> string + ((symbol \<times> rat) list \<times> rat)"
  historical_returns :: "price_matrix \<Rightarrow> string + json"
  correlation_matrix :: "price_matrix \<Rightarrow> string + json"
  rolling_metrics :: "price_matrix \<Rightarrow> rat \<Rightarrow> string + json"
  format_issue :: "issue \<Rightarrow> string"

text \<open>\<open>EfficientFrontier(mu, S, weight_bounds=bounds)\<close>\<close>

definition new_frontier ::
  "libs \<Rightarrow> (symbol \<times> rat) list \<Rightarrow> rat list list \<Rightarrow> rat \<times> rat \<Rightarrow> string + efficient_frontier" where
  "new_frontier lb mu S bounds =
     (case ef_init lb mu S of
        Inl msg \<Rightarrow> Inl msg
      | Inr _ \<Rightarrow> Inr \<lparr>ef_mu = mu, ef_cov = S, ef_weight_bounds = bounds,
                     ef_constraints = [], ef_l2_gamma = []\<rparr>)"

definition add_constraint :: "constraint_fn \<Rightarrow> efficient_frontier \<Rightarrow> efficient_frontier" where
  "add_constraint c ef = ef\<lparr>ef_constraints := ef_constraints ef @ [c]\<rparr>"

definition add_l2_reg :: "rat \<Rightarrow> efficient_frontier \<Rightarrow> efficient_frontier" where
  "add_l2_reg gamma ef = ef\<lparr>ef_l2_gamma := ef_l2_gamma ef @ [gamma]\<rparr>"

text \<open>
  Rounding to \<open>n\<close> decimals, ties to even, as \<open>round(v, n)\<close> on a numpy float and
  \<open>numpy.round\<close> do.
\<close>

definition round_half_even :: "rat \<Rightarrow> int" where
  "round_half_even x =
     (let f = \<lfloor>x\<rfloor>; d = x - of_int f
      in if d < 1 / 2 then f else if d > 1 / 2 then f + 1 else if even f then f else f + 1)"

definition round_dp :: "nat \<Rightarrow> rat \<Rightarrow> rat" where
  "round_dp n x = of_int (round_half_even (x * 10 ^ n)) / 10 ^ n"

text \<open>
  \<open>ef.clean_weights(cutoff)\<close> of the library: weights below the cutoff in absolute value
  become zero, all are rounded to five decimals, and every ticker stays in the map.
\<close>

definition clean_weights :: "weights \<Rightarrow> rat \<Rightarrow> weights" where
  "clean_weights ws cutoff = map (\<lambda>(s, x). (s, round_dp 5 (if \<bar>x\<bar> < cutoff then 0 else x))) ws"

subsection \<open>Frontier generator\<close>

record frontier_point =
  pt_volatility :: rat
  pt_return :: rat

text \<open>\<open>np.linspace(start, stop, num)\<close>\<close>

definition linspace :: "rat \<Rightarrow> rat \<Rightarrow> nat \<Rightarrow> rat list" where
  "linspace start stop num =
     map (\<lambda>i. start + of_nat i * ((stop - start) / of_nat (num - 1))) [0 ..< num]"

text \<open>The five points both fallback paths build: \<open>for i in range(5)\<close>.\<close>

definition fallback_points :: "frontier_point list" where
  "fallback_points =
     map (\<lambda>i. let vol = 2 / 10 + of_nat i * (1 / 10);
                  ret = 5 / 100 + vol * (12 / 10)
              in \<lparr>pt_volatility = vol, pt_return = ret\<rparr>) [0 ..< 5]"

text \<open>
  An anchor: solve on a fresh object and read \<open>portfolio_performance()[1]\<close>; \<open>None\<close> when
  either call raises.
\<close>

definition anchor_volatility :: "libs \<Rightarrow> efficient_frontier \<Rightarrow> objective \<Rightarrow> rat option" where
  "anchor_volatility lb ef obj =
     (case solve lb obj ef of
        Inl _ \<Rightarrow> None
      | Inr ws \<Rightarrow>
          (case portfolio_performance lb ef ws None of
             Inl _ \<Rightarrow> None
           | Inr (ret, vol, sharpe) \<Rightarrow> Some vol))"

definition risk_range_of :: "rat option \<Rightarrow> rat option \<Rightarrow> rat list" where
  "risk_range_of min_vol_solved max_sharpe_vol_solved =
     (let min_vol = (case min_vol_solved of Some v \<Rightarrow> v | None \<Rightarrow> 15 / 100);
          max_sharpe_vol = (case max_sharpe_vol_solved of Some v \<Rightarrow> v | None \<Rightarrow> 4 / 10);
          min_risk = min (min_vol * (9 / 10)) (1 / 10);
          max_risk = max (max_sharpe_vol * (15 / 10)) (6 / 10)
      in linspace min_risk max_risk 15)"

text \<open>The body of \<open>for target_risk in risk_range\<close>: a point, or nothing when a call raises.\<close>

definition frontier_point_at ::
  "libs \<Rightarrow> (symbol \<times> rat) list \<Rightarrow> rat list list \<Rightarrow> rat \<Rightarrow> frontier_point list" where
  "frontier_point_at lb mu S target_risk =
     (case new_frontier lb mu S (0, 1) of
        Inl _ \<Rightarrow> []
      | Inr point_ef \<Rightarrow>
          (case solve lb (Efficient_Risk target_risk) point_ef of
             Inl _ \<Rightarrow> []
           | Inr ws \<Rightarrow>
               (case portfolio_performance lb point_ef ws None of
                  Inl _ \<Rightarrow> []
                | Inr (ret, vol, sharpe) \<Rightarrow> [\<lparr>pt_volatility = vol, pt_return = ret\<rparr>])))"

text \<open>
  The anchors, the range and the loop of \<open>generate_efficient_frontier_data\<close>: the points
  of the targets that solved, in the order of the targets.
\<close>

definition solved_points ::
  "libs \<Rightarrow> (symbol \<times> rat) list \<Rightarrow> rat list list \<Rightarrow> efficient_frontier \<Rightarrow> frontier_point list" where
  "solved_points lb mu S frontier_ef =
     (let min_vol = anchor_volatility lb frontier_ef Min_Volatility;
          max_sharpe_vol = anchor_volatility lb frontier_ef Max_Sharpe;
          risk_range = risk_range_of min_vol max_sharpe_vol
      in concat (map (frontier_point_at lb mu S) risk_range))"

text \<open>
  \<open>generate_efficient_frontier_data(ef, mu, S)\<close>; the parameter \<open>ef\<close> is not used by the
  source. With fewer than three points the five fallback points are appended to the list.
  An exception outside the inner \<open>try\<close> blocks (a constructor that raises) gives the five
  fallback points alone.
\<close>

definition generate_efficient_frontier_data ::
  "libs \<Rightarrow> (symbol \<times> rat) list \<Rightarrow> rat list list \<Rightarrow> frontier_point list" where
  "generate_efficient_frontier_data lb mu S =
     (case new_frontier lb mu S (0, 1) of
        Inl _ \<Rightarrow> fallback_points
      | Inr frontier_ef \<Rightarrow>
          (let frontier_points = solved_points lb mu S frontier_ef
           in if length frontier_points < 3 then frontier_points @ fallback_points
              else frontier_points))"

subsection \<open>Portfolio optimization\<close>

text \<open>
  The recognized preferences; a key that is absent is \<open>None\<close>. A \<open>preferences\<close> argument
  that is \<open>None\<close> or not a dictionary is \<open>None\<close> here.
\<close>

record prefs =
  pref_max_weight :: "rat option"
  pref_min_weight :: "rat option"
  pref_target_volatility :: "rat option"
  pref_target_return :: "rat option"

definition no_prefs :: prefs where
  "no_prefs = \<lparr>pref_max_weight = None, pref_min_weight = None,
               pref_target_volatility = None, pref_target_return = None\<rparr>"

type_synonym result = "(string \<times> json) list"

definition null_result :: "string \<Rightarrow> result" where
  "null_result note =
     [(''optimized_weights'', J_Null), (''expected_return'', J_Null),
      (''volatility'', J_Null), (''sharpe_ratio'', J_Null), (''note'', J_Str note)]"

text \<open>\<open>sep.join(xs)\<close>\<close>

fun join :: "string \<Rightarrow> string list \<Rightarrow> string" where
  "join sep [] = []"
| "join sep [x] = x"
| "join sep (x # y # ys) = x @ sep @ join sep (y # ys)"

text \<open>The median of the four estimates of an asset, and \<open>clip(lower, upper)\<close>.\<close>

definition median4 :: "rat \<Rightarrow> rat \<Rightarrow> rat \<Rightarrow> rat \<Rightarrow> rat" where
  "median4 a b c d = (case sort [a, b, c, d] of [x0, x1, x2, x3] \<Rightarrow> (x1 + x2) / 2 | _ \<Rightarrow> 0)"

definition clip :: "rat \<Rightarrow> rat \<Rightarrow> rat \<Rightarrow> rat" where
  "clip lower upper x = min (max x lower) upper"

text \<open>
  \<open>sum(holdings[s] * prices.get(s, 0) for s in holdings)\<close>; a price that is \<open>None\<close> makes
  the product raise.
\<close>

definition total_value_of :: "(symbol \<times> rat) list \<Rightarrow> (symbol \<times> rat option) list \<Rightarrow> string + rat" where
  "total_value_of holdings prices =
     (if list_ex (\<lambda>(s, amount). map_of prices s = Some None) holdings then Inl ''TypeError''
      else Inr (sum_list (map (\<lambda>(s, amount).
                   amount * (case map_of prices s of Some (Some p) \<Rightarrow> p | _ \<Rightarrow> 0)) holdings)))"

text \<open>
  The block under \<open>if prices is not None\<close>: the value of the local variable \<open>allocation\<close>
  after it. The price series (\<open>price_series_of\<close>, the loop over \<open>cleaned_weights\<close>) takes
  the symbols of the cleaned weights that have a price; the allocation runs when every one
  of them has. Any exception leaves \<open>None\<close>.
\<close>

definition price_series_of :: "(symbol \<times> rat option) list \<Rightarrow> weights \<Rightarrow> (symbol \<times> rat) list" where
  "price_series_of prices cleaned_weights =
     concat (map (\<lambda>(symb, x). case map_of prices symb of
                     Some (Some p) \<Rightarrow> [(symb, p)] | _ \<Rightarrow> []) cleaned_weights)"

definition discrete_allocation ::
  "libs \<Rightarrow> (symbol \<times> rat) list \<Rightarrow> (symbol \<times> rat option) list option \<Rightarrow> weights
     \<Rightarrow> (symbol \<times> rat) list option" where
  "discrete_allocation lb holdings prices_opt cleaned_weights =
     (case prices_opt of
        None \<Rightarrow> None
      | Some prices \<Rightarrow>
          (case total_value_of holdings prices of
             Inl _ \<Rightarrow> None
           | Inr total_value \<Rightarrow>
               (let price_series = price_series_of prices cleaned_weights
                in if length price_series = length cleaned_weights
                   then (case greedy_portfolio lb cleaned_weights price_series total_value of
                           Inl _ \<Rightarrow> None
                         | Inr (allocation, leftover) \<Rightarrow> Some allocation)
                   else None)))"

definition point_json :: "frontier_point \<Rightarrow> json" where
  "point_json p = J_Dict [(''volatility'', J_Num (pt_volatility p)), (''return'', J_Num (pt_return p))]"

text \<open>\<open>{k: round(v, 4) for k, v in weights.items() if v > 0.001}\<close>\<close>

definition rounded_weights :: "weights \<Rightarrow> weights" where
  "rounded_weights ws = map (\<lambda>(k, v). (k, round_dp 4 v)) (filter (\<lambda>(k, v). v > 1 / 1000) ws)"

definition weights_json :: "weights \<Rightarrow> json" where
  "weights_json ws = J_Dict (map (\<lambda>(k, v). (k, J_Num v)) ws)"

definition result_note :: "libs \<Rightarrow> rat \<Rightarrow> rat \<Rightarrow> issue list \<Rightarrow> string option" where
  "result_note lb expected_return sharpe data_issues =
     (let note =
            (if expected_return > 1
             then Some ''Warning: Expected return is unusually high. Consider using a longer historical period.''
             else if sharpe > 3
             then Some ''Warning: Sharpe ratio is unusually high. This may indicate overfitting or data issues.''
             else None)
      in if data_issues \<noteq> []
         then (let data_warning = ''Data quality issues detected: '' @
                     join ''; '' (map (format_issue lb) (take 2 data_issues))
               in case note of None \<Rightarrow> Some data_warning
                  | Some n \<Rightarrow> Some (n @ ''. '' @ data_warning))
         else note)"

text \<open>
  The constraints and the objective term added to the optimizer object: the cap, no short
  selling, the floor when there are more than three assets, and the L2 term with
  \<open>diversification_factor = 0.3\<close>.
\<close>

definition constrained_frontier :: "rat \<Rightarrow> bool \<Rightarrow> rat \<Rightarrow> efficient_frontier \<Rightarrow> efficient_frontier" where
  "constrained_frontier max_weight many_assets min_weight ef0 =
     (let ef1 = add_constraint (W_ge 0) (add_constraint (W_le max_weight) ef0);
          ef2 = (if many_assets then add_constraint (W_ge min_weight) ef1 else ef1)
      in add_l2_reg (3 / 10) ef2)"

text \<open>The \<open>if\<close>/\<open>elif\<close> chain on \<open>risk_method\<close>.\<close>

definition choose_objective :: "string \<Rightarrow> rat option \<Rightarrow> objective" where
  "choose_objective risk_method target_volatility =
     (if risk_method = ''max_sharpe'' then Max_Sharpe
      else if risk_method = ''min_volatility'' then Min_Volatility
      else if risk_method = ''efficient_risk'' \<and> target_volatility \<noteq> None
      then Efficient_Risk (the target_volatility)
      else Max_Sharpe)"

text \<open>
  The dictionary \<open>result\<close> as it is built and returned: the fixed entries, then
  \<open>rolling_metrics\<close>, then \<open>note\<close> when there is a non-empty note, then
  \<open>missing_symbols\<close> when the list is not empty.
\<close>

definition build_result ::
  "weights \<Rightarrow> rat \<Rightarrow> rat \<Rightarrow> rat \<Rightarrow> frontier_point list \<Rightarrow> json \<Rightarrow> json \<Rightarrow> int \<Rightarrow> json
     \<Rightarrow> string option \<Rightarrow> symbol list \<Rightarrow> result" where
  "build_result weights_out expected_return volatility sharpe frontier_data correlation_data
       historical_returns_data lookback_days rolling note missing_symbols =
     [(''optimized_weights'', weights_json weights_out),
      (''expected_return'', J_Num expected_return),
      (''volatility'', J_Num volatility),
      (''sharpe_ratio'', J_Num sharpe),
      (''efficient_frontier'', J_List (map point_json frontier_data)),
      (''correlation_matrix'', correlation_data),
      (''historical_returns'', historical_returns_data),
      (''lookback_days'', J_Num (of_int lookback_days)),
      (''rolling_metrics'', rolling)]
     @ (case note of None \<Rightarrow> [] | Some n \<Rightarrow> if n = [] then [] else [(''note'', J_Str n)])
     @ (if missing_symbols \<noteq> []
        then [(''missing_symbols'', J_List (map J_Str missing_symbols))] else [])"

text \<open>
  The \<open>try\<close> block of \<open>optimize_portfolio\<close>: the result dictionary, or the text of the
  exception the \<open>except\<close> clause turns into a note. The local variable \<open>allocation\<close> is
  computed and then never read.
\<close>

definition optimize_try ::
  "libs \<Rightarrow> (symbol \<times> rat) list \<Rightarrow> string \<Rightarrow> rat \<Rightarrow> rat \<Rightarrow> rat option
     \<Rightarrow> (symbol \<times> rat option) list option \<Rightarrow> int \<Rightarrow> rat
     \<Rightarrow> price_matrix \<Rightarrow> issue list \<Rightarrow> json \<Rightarrow> symbol list \<Rightarrow> string + result" where
  "optimize_try lb holdings risk_method max_weight min_weight0 target_volatility prices
       lookback_days risk_free_rate cleaned_hist_prices data_issues historical_returns_data
       missing_symbols =
     (case return_estimates lb cleaned_hist_prices lookback_days of
        Inl msg \<Rightarrow> Inl msg
      | Inr estimates \<Rightarrow>
     (let mu = map (\<lambda>(s, ema, mean, capm, lg).
                      (s, clip (- (1 / 2)) (3 / 4) (median4 ema mean capm lg))) estimates
      in case ledoit_wolf lb cleaned_hist_prices of
        Inl msg \<Rightarrow> Inl msg
      | Inr S \<Rightarrow>
     (case new_frontier lb mu S (0, 1) of
        Inl msg \<Rightarrow> Inl msg
      | Inr ef0 \<Rightarrow>
     (let min_weight = (if length mu > 3 then 5 / 100 else min_weight0);
          ef = constrained_frontier max_weight (length mu > 3) min_weight ef0
      in case solve lb (choose_objective risk_method target_volatility) ef of
        Inl msg \<Rightarrow> Inl msg
      | Inr weights \<Rightarrow>
     (let cleaned_weights = clean_weights weights min_weight
      in case portfolio_performance lb ef weights (Some risk_free_rate) of
        Inl msg \<Rightarrow> Inl msg
      | Inr (expected_return, volatility, sharpe) \<Rightarrow>
     (let allocation = discrete_allocation lb holdings prices cleaned_weights;
          frontier_data = generate_efficient_frontier_data lb mu S;
          correlation_data =
            (case correlation_matrix lb cleaned_hist_prices of Inl _ \<Rightarrow> J_List [] | Inr c \<Rightarrow> c);
          weights_out = rounded_weights weights;
          note = result_note lb expected_return sharpe data_issues
      in case rolling_metrics lb cleaned_hist_prices risk_free_rate of
        Inl msg \<Rightarrow> Inl msg
      | Inr rolling \<Rightarrow>
          Inr (build_result weights_out expected_return volatility sharpe frontier_data
                 correlation_data historical_returns_data lookback_days rolling note
                 missing_symbols)))))))"

text \<open>
  \<open>min(preferences.get('max_weight', 0.6), 0.8)\<close> and
  \<open>max(preferences.get('min_weight', 0.05), 0.01)\<close>
\<close>

definition effective_max_weight :: "prefs \<Rightarrow> rat" where
  "effective_max_weight preferences =
     min (case pref_max_weight preferences of None \<Rightarrow> 6 / 10 | Some x \<Rightarrow> x) (8 / 10)"

definition effective_min_weight :: "prefs \<Rightarrow> rat" where
  "effective_min_weight preferences =
     max (case pref_min_weight preferences of None \<Rightarrow> 5 / 100 | Some x \<Rightarrow> x) (1 / 100)"

text \<open>
  \<open>optimize_portfolio(holdings, risk_method, preferences, prices, lookback_days,
  risk_free_rate)\<close>. \<open>holdings\<close> is a dictionary, given by its items. The result is the
  returned dictionary and the world after the call, or the exception that left the
  function.
\<close>

definition optimize_portfolio ::
  "platform \<Rightarrow> net \<Rightarrow> libs \<Rightarrow> (symbol \<times> rat) list \<Rightarrow> string \<Rightarrow> prefs option
     \<Rightarrow> (symbol \<times> rat option) list option \<Rightarrow> int \<Rightarrow> rat \<Rightarrow> world
     \<Rightarrow> py_error + (result \<times> world)" where
  "optimize_portfolio plat nt lb holdings risk_method preferences0 prices lookback_days
       risk_free_rate w =
     (let symbols = map fst holdings
      in if length symbols < 2
         then Inr (null_result ''At least 2 different assets are required for optimization.'', w)
         else
          (let preferences = (case preferences0 of None \<Rightarrow> no_prefs | Some p \<Rightarrow> p);
               max_weight = effective_max_weight preferences;
               min_weight = effective_min_weight preferences;
               target_volatility = pref_target_volatility preferences;
               target_return = pref_target_return preferences
           in case get_historical_prices plat nt symbols lookback_days w of
                Inl e \<Rightarrow> Inl e
              | Inr ((hist_prices, missing_symbols), w1) \<Rightarrow>
                  if nrows hist_prices = 0 \<or> columns hist_prices = [] \<or> length (columns hist_prices) < 2
                  then
                    (let missing_msg =
                           (if missing_symbols \<noteq> []
                            then ''Missing data for: '' @ join '', '' missing_symbols else [])
                     in Inr (null_result (''Not enough historical data for optimization. '' @ missing_msg), w1))
                  else
                    (case validate_price_data (zscore lb) hist_prices lookback_days of
                       Inl msg \<Rightarrow> Inl (Library_Error msg)
                     | Inr (is_valid, data_issues, cleaned_hist_prices) \<Rightarrow>
                         (case historical_returns lb cleaned_hist_prices of
                            Inl msg \<Rightarrow> Inl (Library_Error msg)
                          | Inr historical_returns_data \<Rightarrow>
                              (case optimize_try lb holdings risk_method max_weight min_weight
                                      target_volatility prices lookback_days risk_free_rate
                                      cleaned_hist_prices data_issues historical_returns_data
                                      missing_symbols of
                                 Inl msg \<Rightarrow> Inr (null_result (''Optimization failed: '' @ msg), w1)
                               | Inr result \<Rightarrow> Inr (result, w1))))))"

subsection \<open>What the solver promises\<close>

text \<open>
  The library's contract, used as a hypothesis only: weights it returns lie within the
  object's bounds, meet every added constraint and sum to one.
\<close>

definition holds :: "constraint_fn \<Rightarrow> rat \<Rightarrow> bool" where
  "holds c x = (case c of W_le b \<Rightarrow> x \<le> b | W_ge b \<Rightarrow> x \<ge> b)"

definition satisfies :: "efficient_frontier \<Rightarrow> weights \<Rightarrow> bool" where
  "satisfies ef ws =
     (list_all (\<lambda>(s, x). fst (ef_weight_bounds ef) \<le> x \<and> x \<le> snd (ef_weight_bounds ef) \<and>
                         list_all (\<lambda>c. holds c x) (ef_constraints ef)) ws \<and>
      sum_list (map snd ws) = 1)"


subsection \<open>Example library and provider\<close>

text \<open>
  A provider that answers every request with \<open>n\<close> daily prices \<open>100, 101, ...\<close>, and a library
  stand-in. On an object with added constraints the solver proposes the given weights; on
  one without, it proposes the weights \<open>t, 1 - t, 0, ...\<close> for the target (or anchor)
  volatility \<open>t\<close>, and the performance read without a risk-free rate reports the first
  weight as the volatility. A proposal is returned when it satisfies the object's
  constraints, and the call raises otherwise; target-risk solves also raise below a given
  volatility, and the unconstrained max-Sharpe solve can be made to raise.
\<close>

definition daily_series :: "nat \<Rightarrow> price_series" where
  "daily_series n = map (\<lambda>i. (int i * 86400000, Some (100 + of_nat i))) [0 ..< n]"

definition net_daily :: "nat \<Rightarrow> net" where
  "net_daily n k req = (Http_OK (Body_Prices (daily_series n)), 1)"

definition example_matrix :: "nat \<Rightarrow> price_matrix" where
  "example_matrix n =
     \<lparr>index = map int [0 ..< n],
      columns = [(''BTC'', map (\<lambda>i. Some (100 + of_nat i)) [0 ..< n]),
                 (''ETH'', map (\<lambda>i. Some (50 + of_nat i)) [0 ..< n])]\<rparr>"

definition zscore_zero :: zscore_fn where
  "zscore_zero rows = Inr (map (map (\<lambda>x. Finite 0)) rows)"

definition spread :: "efficient_frontier \<Rightarrow> rat \<Rightarrow> weights" where
  "spread ef t = zip (map fst (ef_mu ef)) ([t, 1 - t] @ replicate (length (ef_mu ef) - 2) 0)"

definition example_libs :: "weights \<Rightarrow> rat \<Rightarrow> bool \<Rightarrow> libs" where
  "example_libs raw feasible_from sharpe_solves =
     \<lparr>zscore = zscore_zero,
      return_estimates = (\<lambda>m span. Inr (map (\<lambda>(s, c). (s, 1 / 10, 2 / 10, 3 / 10, 4 / 10)) (columns m))),
      ledoit_wolf = (\<lambda>m. Inr (map (\<lambda>c. map (\<lambda>d. 0) (columns m)) (columns m))),
      ef_init = (\<lambda>mu S. Inr ()),
      solve = (\<lambda>obj ef.
         let ws = (case obj of
                     Efficient_Risk t \<Rightarrow> spread ef t
                   | Max_Sharpe \<Rightarrow> if ef_constraints ef = [] then spread ef (6 / 10) else raw
                   | Min_Volatility \<Rightarrow> if ef_constraints ef = [] then spread ef feasible_from else raw);
             solves = (case obj of
                     Efficient_Risk t \<Rightarrow> feasible_from \<le> t
                   | Max_Sharpe \<Rightarrow> ef_constraints ef \<noteq> [] \<or> sharpe_solves
                   | Min_Volatility \<Rightarrow> True)
         in if solves \<and> satisfies ef ws then Inr ws else Inl ''infeasible''),
      portfolio_performance = (\<lambda>ef ws rf.
         case rf of
           None \<Rightarrow> Inr (1 / 10, (case ws of [] \<Rightarrow> 0 | (s, x) # _ \<Rightarrow> x), 1 / 2)
         | Some r \<Rightarrow> Inr (1 / 5, 1 / 2, 2 / 5)),
      greedy_portfolio = (\<lambda>ws ps total. Inr (map (\<lambda>(s, p). (s, 1)) ps, 0)),
      historical_returns = (\<lambda>m. Inr (J_Dict [])),
      correlation_matrix = (\<lambda>m. Inr (J_List [])),
      rolling_metrics = (\<lambda>m rf. Inr (J_Dict [])),
      format_issue = (\<lambda>i. ''issue'')\<rparr>"

definition is_insufficient :: "issue \<Rightarrow> bool" where
  "is_insufficient i = (case i of Insufficient_Points n r \<Rightarrow> True | _ \<Rightarrow> False)"

text \<open>A two-row matrix whose one column starts with a missing cell.\<close>

definition gappy_matrix :: price_matrix where
  "gappy_matrix = \<lparr>index = [0, 1], columns = [(''BTC'', [None, Some 5])]\<rparr>"

text \<open>
  Two assets and a library in a falling market: no constraint-free max-Sharpe portfolio
  exists, the least volatility that can be reached is 58%.
\<close>

definition two_assets :: "(symbol \<times> rat) list" where
  "two_assets = [(''BTC'', 3 / 10), (''ETH'', 2 / 10)]"

definition bear_libs :: libs where
  "bear_libs = example_libs [(''BTC'', 1 / 2), (''ETH'', 1 / 2)] (58 / 100) False"

text \<open>The same market with nothing reachable below 90% volatility: no target solves.\<close>

definition stalled_libs :: libs where
  "stalled_libs = example_libs [(''BTC'', 1 / 2), (''ETH'', 1 / 2)] (9 / 10) False"

text \<open>
  Holdings, live prices and two libraries for runs of the whole optimization: one whose
  solver proposes the weights 0.6 and 0.4, one whose solver proposes weights that sum to
  one and whose last digits round upwards.
\<close>

definition example_holdings :: "(symbol \<times> rat) list" where
  "example_holdings = [(''BTC'', 1), (''ETH'', 2)]"

definition example_prices :: "(symbol \<times> rat option) list" where
  "example_prices = [(''BTC'', Some 60000), (''ETH'', Some 3000)]"

definition balanced_libs :: libs where
  "balanced_libs = example_libs [(''BTC'', 6 / 10), (''ETH'', 4 / 10)] (1 / 10) True"




section \<open>Properties of the data layer\<close>

subsection \<open>Cache store\<close>

text \<open>
  C9, as the code has it. Writing a series at time \<open>t0\<close> and reading the same key at time
  \<open>t1\<close> returns the stored series when \<open>t1 - t0\<close> is at most 24 hours (86400 seconds) and a
  miss when it is more; and reading any key whose entry \<open>e\<close> is on disk returns the entry's
  data when \<open>now - timestamp e\<close> is at most 24 hours and a miss when it is more.
\<close>

theorem cache_round_trip:
  "load_from_cache (save_to_cache dir t0 cid days d) t1 cid days =
     (if t1 - t0 \<le> 86400 then Some d else None) \<and>
   load_from_cache (dir(get_cache_path cid days \<mapsto> e)) now cid days =
     (if now - timestamp e \<le> 86400 then Some (data e) else None)"
  by (simp add: load_from_cache_def load_from_cache_aged_def save_to_cache_def not_less)

text \<open>
  C9 as stated fails at the boundary: an entry exactly 24 hours old is not below 24 hours
  old, and the read still returns it.
\<close>

theorem cache_boundary_counterexample:
  "\<not> ((86400::rat) - 0 < 86400) \<and>
   load_from_cache (save_to_cache Map.empty 0 ''bitcoin'' 60 [(0::int, Some (100::rat))])
     86400 ''bitcoin'' 60 = Some [(0, Some 100)]"
  by (simp add: load_from_cache_def load_from_cache_aged_def save_to_cache_def)

subsection \<open>History store\<close>

lemma fetch_symbol_step:
  assumes "fetch_symbol plat nt days ums symb (ap, ms, w) = Inr (ap', ms', w')"
  shows "(\<exists>ps. ap' = ap @ [(symb, ps)] \<and> ms' = ms) \<or> (ap' = ap \<and> ms' = ms @ [symb])"
  using assms
  by (auto simp: fetch_symbol_def split: option.splits prod.splits if_splits)

lemma fetch_all_names:
  "fetch_all plat nt days ums syms (ap, ms, w) = Inr (ap', ms', w') \<Longrightarrow>
     set (map fst ap') \<union> set ms' = set (map fst ap) \<union> set ms \<union> set syms"
proof (induction syms arbitrary: ap ms w)
  case Nil
  then show ?case by simp
next
  case (Cons s rest)
  from Cons.prems obtain ap1 ms1 w1 where
    st: "fetch_symbol plat nt days ums s (ap, ms, w) = Inr (ap1, ms1, w1)" and
    re: "fetch_all plat nt days ums rest (ap1, ms1, w1) = Inr (ap', ms', w')"
    by (auto split: sum.splits)
  from fetch_symbol_step[OF st] Cons.IH[OF re] show ?case by auto
qed


lemma column_names_combine: "column_names (combine_frames plat frames) = map fst frames"
  by (simp add: combine_frames_def column_names_def bfill_def ffill_def map_columns_def Let_def
      split_def comp_def)

text \<open>What a returning call gives, in terms of the loop's two lists.\<close>

lemma get_historical_prices_cases:
  assumes "get_historical_prices plat nt symbols days w = Inr ((m, missing), w')"
  shows "(m = empty_frame \<and> missing = filter known_symbol symbols) \<or>
         (\<exists>ap. ap \<noteq> [] \<and> m = combine_frames plat ap \<and>
            fetch_all plat nt days True (filter known_symbol symbols) ([], [], w)
              = Inr (ap, missing, w'))"
  using assms
  by (auto simp: get_historical_prices_def get_historical_prices_from_def Let_def
           split: sum.splits if_splits)

lemma example_run:
  "map_sum id fst
     (get_historical_prices example_platform net_up [''BTC'', ''DOGECOIN'', ''ETH''] 60 fresh_world)
   = Inr (\<lparr>index = [0, 1],
           columns = [(''BTC'', [Some 100, Some 110]), (''ETH'', [Some 100, Some 110])]\<rparr>, [])"
  by code_simp

text \<open>
  C3, as the code has it. A symbol that is not in the provider table is filtered out before
  the loop: in the result of every returning call it is neither a column of the matrix nor
  an entry of the missing list.
\<close>

theorem unknown_symbol_dropped:
  assumes "get_historical_prices plat nt symbols days w = Inr ((m, missing), w')"
    and "\<not> known_symbol s"
  shows "s \<notin> set (column_names m) \<and> s \<notin> set missing"
proof -
  from get_historical_prices_cases[OF assms(1)] show ?thesis
  proof (elim disjE exE conjE)
    assume "m = empty_frame" "missing = filter known_symbol symbols"
    with assms(2) show ?thesis by (simp add: column_names_def empty_frame_def)
  next
    fix ap
    assume m: "m = combine_frames plat ap"
      and fa: "fetch_all plat nt days True (filter known_symbol symbols) ([], [], w)
                 = Inr (ap, missing, w')"
    from fetch_all_names[OF fa]
    have "set (map fst ap) \<union> set missing = set (filter known_symbol symbols)" by simp
    with assms(2) m show ?thesis by (auto simp: column_names_combine)
  qed
qed

theorem unknown_symbol_dropped_witness:
  "\<exists>m missing w'.
     get_historical_prices example_platform net_up [''BTC'', ''DOGECOIN'', ''ETH''] 60 fresh_world
       = Inr ((m, missing), w') \<and>
     \<not> known_symbol ''DOGECOIN'' \<and>
     ''DOGECOIN'' \<notin> set (column_names m) \<and> ''DOGECOIN'' \<notin> set missing"
proof -
  obtain m missing w' where run:
    "get_historical_prices example_platform net_up [''BTC'', ''DOGECOIN'', ''ETH''] 60 fresh_world
       = Inr ((m, missing), w')"
    using example_run
    by (cases "get_historical_prices example_platform net_up [''BTC'', ''DOGECOIN'', ''ETH''] 60
                 fresh_world") auto
  have unknown: "\<not> known_symbol ''DOGECOIN''" by code_simp
  from unknown_symbol_dropped[OF run unknown] run unknown show ?thesis by blast
qed

text \<open>
  C3 as stated fails: with a provider that answers every request, the unknown symbol is not
  listed as missing; the missing list is empty.
\<close>

theorem unknown_symbol_counterexample:
  "\<not> known_symbol ''DOGECOIN'' \<and>
   (case get_historical_prices example_platform net_up [''BTC'', ''DOGECOIN'', ''ETH''] 60 fresh_world of
      Inl e \<Rightarrow> False
    | Inr ((m, missing), w') \<Rightarrow>
        column_names m = [''BTC'', ''ETH''] \<and> missing = [] \<and> ''DOGECOIN'' \<notin> set missing)"
  by code_simp




section \<open>Properties of the data validator\<close>

lemma length_ffill_from: "length (ffill_from prev xs) = length xs"
  by (induction prev xs rule: ffill_from.induct) auto

lemma ffill_from_Some: "None \<notin> set (ffill_from (Some v) xs)"
proof (induction xs arbitrary: v)
  case Nil
  then show ?case by simp
next
  case (Cons x xs)
  then show ?case by (cases x) auto
qed

lemma ffill_from_nonempty: "ffill_from prev xs = [] \<longleftrightarrow> xs = []"
  by (cases "(prev, xs)" rule: ffill_from.cases) auto

text \<open>Once a present cell has been seen, forward filling ends on a present cell.\<close>

lemma last_ffill_from:
  "xs \<noteq> [] \<Longrightarrow> prev \<noteq> None \<or> (\<exists>v. Some v \<in> set xs) \<Longrightarrow> last (ffill_from prev xs) \<noteq> None"
proof (induction prev xs rule: ffill_from.induct)
  case (1 prev)
  then show ?case by simp
next
  case (2 prev xs)
  then show ?case by (cases xs) (auto simp: ffill_from_nonempty)
next
  case (3 prev v xs)
  then show ?case by (cases xs) (auto simp: ffill_from_nonempty)
qed

text \<open>A column with a present cell has no missing cell after both fills.\<close>

lemma fill_complete:
  assumes "Some v \<in> set xs"
  shows "None \<notin> set (bfill_col (ffill_col xs))"
proof -
  let ?zs = "ffill_from None xs"
  from assms have ne: "xs \<noteq> []" by auto
  with assms have "last ?zs \<noteq> None" by (intro last_ffill_from) auto
  moreover from ne have zne: "?zs \<noteq> []" by (simp add: ffill_from_nonempty)
  ultimately obtain u rest where r: "rev ?zs = Some u # rest"
    by (cases "rev ?zs") (auto simp: last_rev hd_rev[symmetric] dest: arg_cong[where f=hd])
  then have "ffill_from None (rev ?zs) = Some u # ffill_from (Some u) rest" by simp
  then show ?thesis using ffill_from_Some[of u rest]
    by (simp add: bfill_col_def ffill_col_def)
qed

text \<open>A column without any present cell is left as it is.\<close>

lemma fill_all_missing:
  "set xs \<subseteq> {None} \<Longrightarrow> bfill_col (ffill_col xs) = xs"
proof -
  have a: "\<And>ys::'a option list. set ys \<subseteq> {None} \<Longrightarrow> ffill_from None ys = ys"
  proof -
    fix ys :: "'a option list"
    show "set ys \<subseteq> {None} \<Longrightarrow> ffill_from None ys = ys"
      by (induction ys) auto
  qed
  assume "set xs \<subseteq> {None}"
  then show ?thesis by (simp add: bfill_col_def ffill_col_def a)
qed

lemma columns_fill:
  "columns (bfill (ffill m)) = map (\<lambda>(s, col). (s, bfill_col (ffill_col col))) (columns m)"
  by (simp add: bfill_def ffill_def map_columns_def split_def comp_def)

lemma index_fill: "index (bfill (ffill m)) = index m"
  by (simp add: bfill_def ffill_def map_columns_def)

lemma length_fill: "length (bfill_col (ffill_col col)) = length col"
  by (simp add: bfill_col_def ffill_col_def length_ffill_from)

text \<open>
  C1, as the code has it. The threshold is \<open>min(0.8 * lookback, 20)\<close>. A matrix with fewer
  rows is rejected at once: the verdict is invalid, the only issue is the one for
  insufficient points, and the data comes back as it was given. A matrix with at least
  that many rows passes the check: whatever the rest of the validation finds, no
  insufficient-points issue is reported.
\<close>

theorem minimum_points_check:
  "(of_nat (nrows m) < min (of_int L * (8 / 10)) (20::rat) \<longrightarrow>
      validate_price_data z m L =
        Inr (False, [Insufficient_Points (nrows m) (min (of_int L * (8 / 10)) 20)], m)) \<and>
   (\<not> of_nat (nrows m) < min (of_int L * (8 / 10)) (20::rat) \<longrightarrow>
      (case validate_price_data z m L of
         Inl msg \<Rightarrow> True
       | Inr (v, issues, c) \<Rightarrow> \<not> list_ex is_insufficient issues))"
  by (auto simp: validate_price_data_def min_required_of_def Let_def is_insufficient_def
           split: sum.splits)

theorem minimum_points_check_witness:
  "of_nat (nrows (example_matrix 5)) < min (of_int 60 * (8 / 10)) (20::rat) \<and>
   validate_price_data zscore_zero (example_matrix 5) 60 =
     Inr (False, [Insufficient_Points 5 20], example_matrix 5) \<and>
   \<not> of_nat (nrows (example_matrix 20)) < min (of_int 60 * (8 / 10)) (20::rat) \<and>
   (case validate_price_data zscore_zero (example_matrix 20) 60 of
      Inl msg \<Rightarrow> True
    | Inr (v, issues, c) \<Rightarrow> \<not> list_ex is_insufficient issues)"
proof -
  have small: "of_nat (nrows (example_matrix 5)) < min (of_int 60 * (8 / 10)) (20::rat)"
    by code_simp
  have large: "\<not> of_nat (nrows (example_matrix 20)) < min (of_int 60 * (8 / 10)) (20::rat)"
    by code_simp
  have n5: "nrows (example_matrix 5) = 5" by code_simp
  have t: "min (of_int 60 * (8 / 10)) (20::rat) = 20" by simp
  from minimum_points_check[of "example_matrix 5" 60 zscore_zero] small
  have a: "validate_price_data zscore_zero (example_matrix 5) 60 =
     Inr (False, [Insufficient_Points 5 20], example_matrix 5)"
    unfolding n5 t by blast
  from minimum_points_check[of "example_matrix 20" 60 zscore_zero] large
  have b: "(case validate_price_data zscore_zero (example_matrix 20) 60 of
      Inl msg \<Rightarrow> True
    | Inr (v, issues, c) \<Rightarrow> \<not> list_ex is_insufficient issues)"
    by blast
  from small large a b show ?thesis by blast
qed

text \<open>
  C1 as stated fails: with a lookback of 60 days, 20 rows are fewer than
  \<open>max(0.8 * 60, 20) = 48\<close>, and the validator accepts them without any issue.
\<close>

theorem minimum_points_counterexample:
  "of_nat (nrows (example_matrix 20)) < max (of_int 60 * (8 / 10)) (20::rat) \<and>
   (case validate_price_data zscore_zero (example_matrix 20) 60 of
      Inl msg \<Rightarrow> False
    | Inr (v, issues, c) \<Rightarrow> v \<and> issues = [])"
  by code_simp

text \<open>
  C4, as the code has it. When the matrix has at least \<open>min(0.8 * lookback, 20)\<close> rows and
  the validator returns, whatever the verdict, the cleaned matrix is the input
  forward-filled then back-filled: same index, same columns in order, each of the same
  length; a column that has a present cell has no missing cell left, and a column
  without any present cell is unchanged.
\<close>

theorem cleaned_matrix_filled:
  assumes "validate_price_data z m L = Inr (v, issues, c)"
    and "\<not> of_nat (nrows m) < min (of_int L * (8 / 10)) (20::rat)"
  shows "c = bfill (ffill m) \<and> index c = index m \<and>
         list_all2 (\<lambda>(s, col) (s', col'). s' = s \<and> length col' = length col \<and>
                      ((\<exists>x. Some x \<in> set col) \<longrightarrow> None \<notin> set col') \<and>
                      (set col \<subseteq> {None} \<longrightarrow> col' = col))
           (columns m) (columns c)"
proof -
  from assms have c: "c = bfill (ffill m)"
    by (auto simp: validate_price_data_def min_required_of_def Let_def split: sum.splits)
  have "list_all2 (\<lambda>(s, col) (s', col'). s' = s \<and> length col' = length col \<and>
                      ((\<exists>x. Some x \<in> set col) \<longrightarrow> None \<notin> set col') \<and>
                      (set col \<subseteq> {None} \<longrightarrow> col' = col))
           (columns m) (map (\<lambda>(s, col). (s, bfill_col (ffill_col col))) (columns m))"
    by (rule list_all2_all_nthI) (auto simp: split_def length_fill fill_complete fill_all_missing)
  with c show ?thesis by (simp add: columns_fill index_fill)
qed

theorem cleaned_matrix_filled_witness:
  "\<not> of_nat (nrows gappy_matrix) < min (of_int 2 * (8 / 10)) (20::rat) \<and>
   (\<exists>v issues c. validate_price_data zscore_zero gappy_matrix 2 = Inr (v, issues, c) \<and>
      c = bfill (ffill gappy_matrix) \<and> columns c = [(''BTC'', [Some 5, Some 5])])"
proof -
  have enough: "\<not> of_nat (nrows gappy_matrix) < min (of_int 2 * (8 / 10)) (20::rat)"
    by code_simp
  have "case_sum (\<lambda>_. False) (\<lambda>_. True) (validate_price_data zscore_zero gappy_matrix 2)"
    by code_simp
  then obtain v issues c where
    run: "validate_price_data zscore_zero gappy_matrix 2 = Inr (v, issues, c)"
    by (cases "validate_price_data zscore_zero gappy_matrix 2") auto
  have filled: "columns (bfill (ffill gappy_matrix)) = [(''BTC'', [Some 5, Some 5])]"
    by code_simp
  from cleaned_matrix_filled[OF run enough] have "c = bfill (ffill gappy_matrix)" by blast
  with run enough filled show ?thesis by blast
qed

text \<open>
  C4 as stated fails on the short-circuit path: with a lookback of 60 days the two-row
  matrix is rejected, and the data returned as cleaned is the input itself, missing cell
  included, not its fill.
\<close>

theorem cleaned_matrix_counterexample:
  "(case validate_price_data zscore_zero gappy_matrix 60 of
      Inl msg \<Rightarrow> False
    | Inr (v, issues, c) \<Rightarrow>
        \<not> v \<and> c \<noteq> bfill (ffill gappy_matrix) \<and> columns c = [(''BTC'', [None, Some 5])])"
  by code_simp

section \<open>Properties of the frontier generator\<close>

lemma length_fallback: "length fallback_points = 5"
  by (simp add: fallback_points_def)

lemma fallback_values:
  "map (\<lambda>p. (pt_volatility p, pt_return p)) fallback_points =
     [(2 / 10, 29 / 100), (3 / 10, 41 / 100), (4 / 10, 53 / 100), (5 / 10, 65 / 100), (6 / 10, 77 / 100)]"
  by code_simp

lemma length_frontier_point_at: "length (frontier_point_at lb mu S t) \<le> 1"
  by (simp add: frontier_point_at_def split: sum.splits prod.splits)

lemma length_concat_le:
  "(\<And>x. x \<in> set xs \<Longrightarrow> length (f x) \<le> 1) \<Longrightarrow> length (concat (map f xs)) \<le> length xs"
proof (induction xs)
  case Nil
  then show ?case by simp
next
  case (Cons a xs)
  then have "length (f a) \<le> 1" "length (concat (map f xs)) \<le> length xs" by auto
  then show ?case by simp
qed

lemma length_risk_range: "length (risk_range_of a b) = 15"
  by (simp add: risk_range_of_def linspace_def Let_def)

lemma length_solved_points: "length (solved_points lb mu S ef) \<le> 15"
proof -
  let ?rr = "risk_range_of (anchor_volatility lb ef Min_Volatility) (anchor_volatility lb ef Max_Sharpe)"
  have "length (concat (map (frontier_point_at lb mu S) ?rr)) \<le> length ?rr"
    by (rule length_concat_le) (rule length_frontier_point_at)
  then show ?thesis by (simp add: solved_points_def Let_def length_risk_range)
qed

text \<open>
  C5, as the code has it. The generator always returns at least three points. When the
  constructor raises it returns the five fallback points alone. Otherwise at most 15
  targets solve, and the solved points stand in target order; nothing sorts them. With
  three or more solved points the output is exactly those. With fewer than three the
  five fallback points are appended after the solved points, none of which is discarded:
  the output has five more points than solved, so it is the five fallback points alone
  when no target solved, and six or seven points when one or two did. The fallback points
  have volatility \<open>0.2 + 0.1 i\<close> and return \<open>0.05 + 1.2 * volatility\<close> for
  \<open>i = 0..4\<close>, in ascending order of volatility.
\<close>

theorem frontier_shape:
  "3 \<le> length (generate_efficient_frontier_data lb mu S) \<and>
   (case new_frontier lb mu S (0, 1) of
      Inl msg \<Rightarrow> generate_efficient_frontier_data lb mu S = fallback_points
    | Inr ef \<Rightarrow>
        length (solved_points lb mu S ef) \<le> 15 \<and>
        (length (solved_points lb mu S ef) < 3 \<longrightarrow>
           generate_efficient_frontier_data lb mu S = solved_points lb mu S ef @ fallback_points \<and>
           length (generate_efficient_frontier_data lb mu S) = length (solved_points lb mu S ef) + 5) \<and>
        (solved_points lb mu S ef = [] \<longrightarrow>
           generate_efficient_frontier_data lb mu S = fallback_points) \<and>
        (3 \<le> length (solved_points lb mu S ef) \<longrightarrow>
           generate_efficient_frontier_data lb mu S = solved_points lb mu S ef)) \<and>
   map (\<lambda>p. (pt_volatility p, pt_return p)) fallback_points =
     [(2 / 10, 29 / 100), (3 / 10, 41 / 100), (4 / 10, 53 / 100), (5 / 10, 65 / 100), (6 / 10, 77 / 100)] \<and>
   sorted (map pt_volatility fallback_points)"
proof -
  have s: "sorted (map pt_volatility fallback_points)" by code_simp
  show ?thesis
    using length_solved_points[of lb mu S] s
    by (auto simp: generate_efficient_frontier_data_def Let_def length_fallback fallback_values
        split: sum.splits)
qed

theorem frontier_shape_witness:
  "\<exists>ef. new_frontier bear_libs two_assets [[1, 0], [0, 1]] (0, 1) = Inr ef \<and>
     length (solved_points bear_libs two_assets [[1, 0], [0, 1]] ef) < 3 \<and>
     generate_efficient_frontier_data bear_libs two_assets [[1, 0], [0, 1]] =
       solved_points bear_libs two_assets [[1, 0], [0, 1]] ef @ fallback_points \<and>
     length (generate_efficient_frontier_data bear_libs two_assets [[1, 0], [0, 1]]) =
       length (solved_points bear_libs two_assets [[1, 0], [0, 1]] ef) + 5 \<and>
     3 \<le> length (generate_efficient_frontier_data bear_libs two_assets [[1, 0], [0, 1]])"
proof -
  define ef where "ef = \<lparr>ef_mu = two_assets, ef_cov = [[1, 0], [0, 1 :: rat]],
     ef_weight_bounds = (0 :: rat, 1 :: rat), ef_constraints = [], ef_l2_gamma = []\<rparr>"
  have nf: "new_frontier bear_libs two_assets [[1, 0], [0, 1]] (0, 1) = Inr ef"
    unfolding ef_def by code_simp
  have short: "length (solved_points bear_libs two_assets [[1, 0], [0, 1]] ef) < 3"
    unfolding ef_def by code_simp
  note shape = frontier_shape[of bear_libs two_assets "[[1, 0], [0, 1]]", unfolded nf sum.case]
  from shape have three:
    "3 \<le> length (generate_efficient_frontier_data bear_libs two_assets [[1, 0], [0, 1]])"
    by (rule conjunct1)
  from shape have
    "length (solved_points bear_libs two_assets [[1, 0], [0, 1]] ef) < 3 \<longrightarrow>
       generate_efficient_frontier_data bear_libs two_assets [[1, 0], [0, 1]] =
         solved_points bear_libs two_assets [[1, 0], [0, 1]] ef @ fallback_points \<and>
       length (generate_efficient_frontier_data bear_libs two_assets [[1, 0], [0, 1]]) =
         length (solved_points bear_libs two_assets [[1, 0], [0, 1]] ef) + 5"
    by (elim conjE)
  from this short have ab:
    "generate_efficient_frontier_data bear_libs two_assets [[1, 0], [0, 1]] =
       solved_points bear_libs two_assets [[1, 0], [0, 1]] ef @ fallback_points \<and>
     length (generate_efficient_frontier_data bear_libs two_assets [[1, 0], [0, 1]]) =
       length (solved_points bear_libs two_assets [[1, 0], [0, 1]] ef) + 5"
    by (rule mp)
  from ab have
    a: "generate_efficient_frontier_data bear_libs two_assets [[1, 0], [0, 1]] =
         solved_points bear_libs two_assets [[1, 0], [0, 1]] ef @ fallback_points"
    by (rule conjunct1)
  from ab have
    b: "length (generate_efficient_frontier_data bear_libs two_assets [[1, 0], [0, 1]]) =
         length (solved_points bear_libs two_assets [[1, 0], [0, 1]] ef) + 5"
    by (rule conjunct2)
  show ?thesis
    by (intro exI[of _ ef] conjI) (fact nf short a b three)+
qed

text \<open>When no target solves, the five fallback points are the whole output.\<close>

lemma frontier_no_solve:
  "new_frontier stalled_libs two_assets [[1, 0], [0, 1]] (0, 1) =
     Inr \<lparr>ef_mu = two_assets, ef_cov = [[1, 0], [0, 1]], ef_weight_bounds = (0, 1),
          ef_constraints = [], ef_l2_gamma = []\<rparr> \<and>
   solved_points stalled_libs two_assets [[1, 0], [0, 1]]
     \<lparr>ef_mu = two_assets, ef_cov = [[1, 0], [0, 1]], ef_weight_bounds = (0, 1),
      ef_constraints = [], ef_l2_gamma = []\<rparr> = [] \<and>
   generate_efficient_frontier_data stalled_libs two_assets [[1, 0], [0, 1]] = fallback_points"
  by code_simp

text \<open>
  C5 as stated fails when one or two targets solve. Here the min-volatility anchor gives
  58%, the max-Sharpe anchor raises, the range runs from 10% to 60% and only the last
  target solves: the one solved point is kept in front of the five fallback points, so
  six points are returned and their volatilities start with 0.6, 0.2.
\<close>

theorem frontier_counterexample:
  "map (\<lambda>p. (pt_volatility p, pt_return p))
       (generate_efficient_frontier_data bear_libs two_assets [[1, 0], [0, 1]]) =
     [(6 / 10, 1 / 10),
      (2 / 10, 29 / 100), (3 / 10, 41 / 100), (4 / 10, 53 / 100), (5 / 10, 65 / 100), (6 / 10, 77 / 100)] \<and>
   \<not> sorted (map pt_volatility (generate_efficient_frontier_data bear_libs two_assets [[1, 0], [0, 1]])) \<and>
   length (generate_efficient_frontier_data bear_libs two_assets [[1, 0], [0, 1]]) \<noteq> 5"
  by code_simp

text \<open>
  C6 at a concrete input: with a solved minimum volatility of 58% and a failed max-Sharpe
  anchor, the 15 targets run from 0.1 to 0.6; their lower end is 0.1, not
  \<open>max(0.9 * 0.58, 0.1) = 0.522\<close>.
\<close>

theorem risk_range_lower_end:
  "risk_range_of (Some (58 / 100)) None = linspace (1 / 10) (6 / 10) 15 \<and>
   hd (risk_range_of (Some (58 / 100)) None) = 1 / 10 \<and>
   max ((58 / 100) * (9 / 10)) (1 / 10 :: rat) = 522 / 1000"
  by code_simp

text \<open>
  In general: 15 targets, from \<open>min(0.9 * minVol, 0.1)\<close> to \<open>max(1.5 * maxSharpeVol, 0.6)\<close>,
  with 0.15 and 0.4 standing in for an anchor that failed.
\<close>

lemma linspace_ends:
  "length (linspace a b 15) = 15 \<and> hd (linspace a b 15) = a \<and> last (linspace a b 15) = b"
proof -
  have u: "[0 ..< 15] = 0 # [1 ..< 14] @ [14]"
    by (simp add: upt_rec numeral_nat)
  have e: "a + (14 * b - 14 * a) / 14 = b" by (simp add: field_simps)
  show ?thesis
    by (simp add: linspace_def u e del: upt.simps)
qed

lemma risk_range_shape:
  "length (risk_range_of a b) = 15 \<and>
   hd (risk_range_of a b) = min ((case a of Some v \<Rightarrow> v | None \<Rightarrow> 15 / 100) * (9 / 10)) (1 / 10) \<and>
   last (risk_range_of a b) = max ((case b of Some v \<Rightarrow> v | None \<Rightarrow> 4 / 10) * (15 / 10)) (6 / 10)"
  unfolding risk_range_of_def Let_def using linspace_ends by blast

section \<open>Properties of the optimization\<close>

subsection \<open>Rounding\<close>











subsection \<open>The shape of a run\<close>

text \<open>
  A \<open>try\<close> block that ends in a result has solved the configured object and returns the
  dictionary built from the rounded raw weights of that solve.
\<close>

lemma optimize_try_success:
  assumes "optimize_try lb holdings risk_method max_weight min_weight0 target_volatility prices
       lookback_days risk_free_rate cleaned data_issues hr missing = Inr res"
  shows "\<exists>ef0 (n::nat) raw er vol sh fd cd rolling note.
           solve lb (choose_objective risk_method target_volatility)
             (constrained_frontier max_weight (n > 3) (if n > 3 then 5 / 100 else min_weight0) ef0) = Inr raw \<and>
           ef_weight_bounds ef0 = (0, 1) \<and> ef_constraints ef0 = [] \<and>
           res = build_result (rounded_weights raw) er vol sh fd cd hr lookback_days rolling note missing"
proof -
  obtain estimates where e: "return_estimates lb cleaned lookback_days = Inr estimates"
    using assms by (cases "return_estimates lb cleaned lookback_days") (simp_all add: optimize_try_def)
  define mu where "mu = map (\<lambda>(s, ema, mean, capm, lg).
                      (s, clip (- (1 / 2)) (3 / 4) (median4 ema mean capm lg))) estimates"
  obtain S where s: "ledoit_wolf lb cleaned = Inr S"
    using assms e by (cases "ledoit_wolf lb cleaned") (simp_all add: optimize_try_def)
  obtain ef0 where f: "new_frontier lb mu S (0, 1) = Inr ef0"
    using assms e s by (cases "new_frontier lb mu S (0, 1)") (simp_all add: optimize_try_def mu_def)
  define ef where "ef = constrained_frontier max_weight (length mu > 3)
                          (if length mu > 3 then 5 / 100 else min_weight0) ef0"
  obtain raw where r: "solve lb (choose_objective risk_method target_volatility) ef = Inr raw"
    using assms e s f
    by (cases "solve lb (choose_objective risk_method target_volatility) ef")
       (simp_all add: optimize_try_def mu_def[symmetric] ef_def Let_def)
  obtain er vol sh where p: "portfolio_performance lb ef raw (Some risk_free_rate) = Inr (er, vol, sh)"
    using assms e s f r
    by (cases "portfolio_performance lb ef raw (Some risk_free_rate)")
       (auto simp add: optimize_try_def mu_def[symmetric] ef_def[symmetric] Let_def)
  obtain rolling where m: "rolling_metrics lb cleaned risk_free_rate = Inr rolling"
    using assms e s f r p
    by (cases "rolling_metrics lb cleaned risk_free_rate")
       (simp_all add: optimize_try_def mu_def[symmetric] ef_def[symmetric] Let_def)
  from assms e s f r p m
  have "res = build_result (rounded_weights raw) er vol sh (generate_efficient_frontier_data lb mu S)
          (case correlation_matrix lb cleaned of Inl _ \<Rightarrow> J_List [] | Inr c \<Rightarrow> c) hr lookback_days rolling
          (result_note lb er sh data_issues) missing"
    by (simp add: optimize_try_def mu_def[symmetric] ef_def[symmetric] Let_def)
  moreover from f have "ef_weight_bounds ef0 = (0, 1)" "ef_constraints ef0 = []"
    by (auto simp: new_frontier_def split: sum.splits)
  ultimately show ?thesis using r unfolding ef_def by blast
qed


text \<open>A returning call gives a null result with a note, or the result of its \<open>try\<close> block.\<close>

lemma optimize_portfolio_cases:
  assumes "optimize_portfolio plat nt lb holdings risk_method preferences prices lookback_days
             risk_free_rate w = Inr (res, w')"
  shows "(\<exists>note. res = null_result note) \<or>
         (\<exists>cleaned issues hr missing.
            optimize_try lb holdings risk_method
              (effective_max_weight (case preferences of None \<Rightarrow> no_prefs | Some p \<Rightarrow> p))
              (effective_min_weight (case preferences of None \<Rightarrow> no_prefs | Some p \<Rightarrow> p))
              (pref_target_volatility (case preferences of None \<Rightarrow> no_prefs | Some p \<Rightarrow> p))
              prices lookback_days risk_free_rate cleaned issues hr missing = Inr res)"
proof (cases "length (map fst holdings) < 2")
  case True
  with assms show ?thesis by (auto simp: optimize_portfolio_def)
next
  case False
  note long = this
  show ?thesis
  proof (cases "get_historical_prices plat nt (map fst holdings) lookback_days w")
    case (Inl e)
    with assms long show ?thesis by (simp add: optimize_portfolio_def Let_def)
  next
    case (Inr r)
    obtain hist missing w1 where r: "r = ((hist, missing), w1)" by (cases r) auto
    show ?thesis
    proof (cases "nrows hist = 0 \<or> columns hist = [] \<or> length (columns hist) < 2")
      case True
      with assms long Inr r show ?thesis by (auto simp: optimize_portfolio_def Let_def)
    next
      case False
      note enough = this
      show ?thesis
      proof (cases "validate_price_data (zscore lb) hist lookback_days")
        case (Inl msg)
        with assms long Inr r enough show ?thesis by (simp add: optimize_portfolio_def Let_def)
      next
        case (Inr v)
        note valid = this
        obtain is_valid issues cleaned where v: "v = (is_valid, issues, cleaned)" by (cases v) auto
        show ?thesis
        proof (cases "historical_returns lb cleaned")
          case (Inl msg)
          with assms long \<open>get_historical_prices plat nt (map fst holdings) lookback_days w = Inr r\<close>
            r enough valid v show ?thesis by (simp add: optimize_portfolio_def Let_def)
        next
          case (Inr hr)
          with assms long \<open>get_historical_prices plat nt (map fst holdings) lookback_days w = Inr r\<close>
            r enough valid v show ?thesis
            by (auto simp: optimize_portfolio_def Let_def split: sum.splits)
        qed
      qed
    qed
  qed
qed






subsection \<open>Fewer than two holdings\<close>

text \<open>
  C8. For a holdings dictionary (distinct keys) with fewer than two symbols,
  \<open>optimize_portfolio\<close> returns the result whose weights, expected return, volatility and
  Sharpe ratio are null and whose note says that two assets are required; the world is
  returned as it was given, so the trace has gained no cache read and no provider request.
\<close>

theorem fewer_than_two_holdings:
  assumes "distinct (map fst holdings)" and "card (fst ` set holdings) < 2"
  shows "optimize_portfolio plat nt lb holdings risk_method preferences prices lookback_days
           risk_free_rate w =
         Inr ([(''optimized_weights'', J_Null), (''expected_return'', J_Null),
               (''volatility'', J_Null), (''sharpe_ratio'', J_Null),
               (''note'', J_Str ''At least 2 different assets are required for optimization.'')],
              w)"
proof -
  from assms have "length (map fst holdings) < 2"
    using distinct_card[of "map fst holdings"] by simp
  then show ?thesis by (simp add: optimize_portfolio_def null_result_def)
qed

theorem fewer_than_two_holdings_witness:
  "distinct (map fst [(''BTC'', 1::rat)]) \<and> card (fst ` set [(''BTC'', 1::rat)]) < 2 \<and>
   optimize_portfolio example_platform net_up balanced_libs [(''BTC'', 1)] ''max_sharpe'' None
       (Some example_prices) 60 0 fresh_world =
     Inr ([(''optimized_weights'', J_Null), (''expected_return'', J_Null),
           (''volatility'', J_Null), (''sharpe_ratio'', J_Null),
           (''note'', J_Str ''At least 2 different assets are required for optimization.'')],
          fresh_world)"
proof -
  have d: "distinct (map fst [(''BTC'', 1::rat)])" by simp
  have c: "card (fst ` set [(''BTC'', 1::rat)]) < 2" by simp
  from fewer_than_two_holdings[OF d c] d c show ?thesis by blast
qed

text \<open>With two known holdings the same call does read the cache and ask the provider.\<close>

lemma two_holdings_fetch:
  "(case optimize_portfolio example_platform (net_daily 25) balanced_libs example_holdings
           ''max_sharpe'' None (Some example_prices) 30 0 fresh_world of
      Inl e \<Rightarrow> False
    | Inr (res, w') \<Rightarrow>
        trace w' = [Cache_Read ''bitcoin'' 30, Http_Get (Coingecko, ''bitcoin'', 30),
                    Cache_Write ''bitcoin'' 30, Cache_Read ''ethereum'' 30,
                    Http_Get (Coingecko, ''ethereum'', 30), Cache_Write ''ethereum'' 30])"
  by code_simp

subsection \<open>Returned weights\<close>


text \<open>When the cap has at most four decimals, as 0.6 and 0.8 have, rounding leaves it as it is.\<close>

lemma default_cap_exact:
  "effective_max_weight no_prefs = 6 / 10 \<and> round_dp 4 (6 / 10) = 6 / 10 \<and>
   round_dp 4 (8 / 10) = 8 / 10"
  by code_simp



subsection \<open>Discrete allocation\<close>

text \<open>No key of a returned dictionary is \<open>allocation\<close>, whatever the prices.\<close>

lemma build_result_no_allocation:
  "map_of (build_result ws er vol sh fd cd hr L rolling nte missing) ''allocation'' = None"
  by (simp add: build_result_def split: option.splits)

lemma no_allocation_key:
  assumes "optimize_portfolio plat nt lb holdings risk_method preferences prices lookback_days
             risk_free_rate w = Inr (res, w')"
  shows "map_of res ''allocation'' = None"
proof -
  from optimize_portfolio_cases[OF assms] show ?thesis
  proof (elim disjE exE)
    fix msg
    assume "res = null_result msg"
    then show ?thesis by (simp add: null_result_def)
  next
    fix cleaned issues hr missing
    assume "optimize_try lb holdings risk_method
              (effective_max_weight (case preferences of None \<Rightarrow> no_prefs | Some p \<Rightarrow> p))
              (effective_min_weight (case preferences of None \<Rightarrow> no_prefs | Some p \<Rightarrow> p))
              (pref_target_volatility (case preferences of None \<Rightarrow> no_prefs | Some p \<Rightarrow> p))
              prices lookback_days risk_free_rate cleaned issues hr missing = Inr res"
    from optimize_try_success[OF this]
    obtain ws er vol sh fd cd rolling nte where
      "res = build_result ws er vol sh fd cd hr lookback_days rolling nte missing"
      by blast
    then show ?thesis by (simp only: build_result_no_allocation)
  qed
qed

lemma price_series_of_Cons:
  "price_series_of prices ((symb, x) # ws) =
     (case map_of prices symb of Some (Some p) \<Rightarrow> [(symb, p)] | _ \<Rightarrow> []) @ price_series_of prices ws"
  by (simp add: price_series_of_def)

lemma length_price_series: "length (price_series_of prices ws) \<le> length ws"
proof (induction ws)
  case Nil
  then show ?case by (simp add: price_series_of_def)
next
  case (Cons e ws)
  obtain symb x where e: "e = (symb, x)" by (cases e)
  from Cons show ?case unfolding e price_series_of_Cons by (simp split: option.splits)
qed

lemma price_series_short:
  assumes "(symb, x) \<in> set ws"
    and "map_of prices symb = None \<or> map_of prices symb = Some None"
  shows "length (price_series_of prices ws) < length ws"
  using assms(1)
proof (induction ws)
  case Nil
  then show ?case by simp
next
  case (Cons e ws)
  obtain s y where e: "e = (s, y)" by (cases e)
  show ?case
  proof (cases "e = (symb, x)")
    case True
    with e have "s = symb" by simp
    with assms(2) have "price_series_of prices (e # ws) = price_series_of prices ws"
      unfolding e price_series_of_Cons by auto
    with length_price_series[of prices ws] show ?thesis by simp
  next
    case False
    with Cons have "length (price_series_of prices ws) < length ws" by simp
    then show ?thesis unfolding e price_series_of_Cons by (simp split: option.splits)
  qed
qed

text \<open>
  The local allocation is skipped, without any error, when a symbol of the cleaned weights
  has no price or a null price.
\<close>

lemma allocation_skipped:
  assumes "(symb, x) \<in> set cleaned_weights"
    and "map_of prices symb = None \<or> map_of prices symb = Some None"
  shows "discrete_allocation lb holdings (Some prices) cleaned_weights = None"
proof -
  from price_series_short[OF assms]
  have "length (price_series_of prices cleaned_weights) \<noteq> length cleaned_weights" by simp
  then show ?thesis
    by (simp add: discrete_allocation_def Let_def split: sum.splits)
qed

text \<open>
  C7 at a concrete input: live prices are supplied for both symbols of the cleaned
  weights and the local allocation is computed, yet the returned dictionary has the nine
  keys below and no allocation.
\<close>

theorem allocation_not_returned:
  "discrete_allocation balanced_libs example_holdings (Some example_prices)
       (clean_weights [(''BTC'', 6 / 10), (''ETH'', 4 / 10)] (5 / 100)) =
     Some [(''BTC'', 1), (''ETH'', 1)] \<and>
   (case optimize_portfolio example_platform (net_daily 25) balanced_libs example_holdings
           ''max_sharpe'' None (Some example_prices) 30 0 fresh_world of
      Inl e \<Rightarrow> False
    | Inr (res, w') \<Rightarrow>
        map fst res = [''optimized_weights'', ''expected_return'', ''volatility'', ''sharpe_ratio'',
                       ''efficient_frontier'', ''correlation_matrix'', ''historical_returns'',
                       ''lookback_days'', ''rolling_metrics''] \<and>
        map_of res ''optimized_weights'' =
          Some (J_Dict [(''BTC'', J_Num (6 / 10)), (''ETH'', J_Num (4 / 10))]) \<and>
        map_of res ''allocation'' = None)"
  by code_simp

end
